theory Spec2Isabelle
  imports Complex_Main "HOL-Library.Sublist" "HOL-Library.Multiset"
begin

section \<open>git2txt: the tree walker and file aggregator of \<open>processFiles\<close>\<close>

text \<open>
  The development embeds \<open>processFiles\<close> of \<open>src/index.js\<close> (lines 244-331) and its
  inner closure \<open>processDirectory\<close> (lines 255-309).

  The code talks to the outside world through four calls of \<open>fs/promises\<close> and
  \<open>isbinaryfile\<close>: \<open>fs.readdir\<close>, \<open>fs.stat\<close>, \<open>isBinaryFile\<close> and \<open>fs.readFile\<close>.
  Each of them is issued at most once per path in one run, so one run sees the file
  system as a fixed snapshot: a tree in which every node records what each of these calls
  answers for it, a thrown error included.
\<close>

subsection \<open>The file system snapshot\<close>

text \<open>
  What the three per-file calls answer for one regular file; \<open>None\<close> is a thrown error.
  \<open>stat_size\<close> is \<open>(await fs.stat(fullPath)).size\<close>, \<open>is_binary\<close> is
  \<open>await isBinaryFile(fullPath)\<close>, \<open>contents\<close> is \<open>await fs.readFile(fullPath, 'utf8')\<close>.
\<close>

record fileinfo =
  stat_size :: "nat option"
  is_binary :: "bool option"
  contents :: "string option"

text \<open>
  A directory entry (\<open>Dirent\<close>) is a name with a kind: \<open>isFile()\<close> holds of \<open>File\<close>,
  \<open>isDirectory()\<close> of \<open>Directory\<close>, neither of \<open>Other\<close> (symbolic links, sockets,
  devices). A directory carries what \<open>fs.readdir(path, {withFileTypes: true})\<close> answers
  for it: \<open>None\<close> when the call throws, \<open>Some entries\<close> with the entries in the order the
  call reports them otherwise.
\<close>

datatype node =
    File fileinfo
  | Directory "(string \<times> node) list option"
  | Other

type_synonym entries = "(string \<times> node) list"
type_synonym listing = "entries option"

subsection \<open>Options, library functions, state and errors\<close>

text \<open>
  \<open>options.threshold\<close> is a number of megabytes and \<open>options.includeAll\<close> a boolean.
  The threshold is a finite JavaScript number, hence a rational; \<open>thresholdBytes\<close>
  (line 246) multiplies it by \<open>1024\<close> twice, which is exact in binary floating point
  short of overflow.
\<close>

record options =
  threshold :: rat
  includeAll :: bool

definition thresholdBytes :: "options \<Rightarrow> rat" where
  "thresholdBytes opts = threshold opts * 1024 * 1024"

text \<open>
  The functions of Node's \<open>path\<close> module and of the \<open>filesize\<close> package that the code
  calls are not part of the repository; they are parameters of the model. So is the
  greatest length a string may have in the JavaScript engine that runs the code
  (\<open>buffer.constants.MAX_STRING_LENGTH\<close>): a concatenation whose result would be longer
  throws \<open>RangeError\<close>. A \<open>string\<close> of the model is the sequence of the code units of a
  JavaScript string, so that \<open>length\<close> is the length the engine counts.
\<close>

record lib =
  path_join :: "string \<Rightarrow> string \<Rightarrow> string"
  path_relative :: "string \<Rightarrow> string \<Rightarrow> string"
  formatFileSize :: "nat \<Rightarrow> string"
  maxStringLength :: nat

text \<open>The three variables of \<open>processFiles\<close> that the closure mutates (lines 247-249).\<close>

record state =
  output_str :: string
  processedFiles :: nat
  skippedFiles :: nat

text \<open>
  The only error that leaves \<open>processDirectory\<close> is the one \<open>fs.readdir\<close> throws; it is
  tagged with the path of the directory that could not be enumerated.
\<close>

datatype error = ReaddirError string

subsection \<open>One regular file: the \<open>try\<close> block of lines 269-307\<close>

definition delimiter :: string where
  "delimiter = replicate 80 (CHR ''='')"

definition skip :: "state \<Rightarrow> state" where
  "skip st = st\<lparr>skippedFiles := skippedFiles st + 1\<rparr>"

text \<open>
  A run of statements \<open>output += piece\<close>, one for each piece in turn. A statement
  whose result would be longer than the engine allows throws and leaves \<open>output\<close> as the
  statements before it made it; the result is the final \<open>output\<close> and whether all the
  statements went through.
\<close>

fun appendPieces :: "nat \<Rightarrow> string list \<Rightarrow> string \<Rightarrow> string \<times> bool" where
  "appendPieces m [] out = (out, True)"
| "appendPieces m (piece # pieces) out =
     (if length out + length piece > m then (out, False)
      else appendPieces m pieces (out @ piece))"

text \<open>
  Lines 288-297: \<open>fs.readFile\<close>, \<open>path.relative\<close>, the five \<open>output +=\<close> of lines
  291-295, then \<open>processedFiles++\<close>. A failing read (\<open>None\<close>) and a throwing
  \<open>output +=\<close> both end in the \<open>catch\<close> of lines 302-307, that is in \<open>skippedFiles++\<close>;
  what the earlier \<open>output +=\<close> appended stays in \<open>output\<close>.
\<close>

definition readAndAppend :: "lib \<Rightarrow> string \<Rightarrow> string \<Rightarrow> nat \<Rightarrow> fileinfo \<Rightarrow> state \<Rightarrow> state" where
  "readAndAppend L directory fullPath sz f st =
     (case contents f of
        None \<Rightarrow> skip st
      | Some content \<Rightarrow>
          (case appendPieces (maxStringLength L)
                  [[CHR 0x0A] @ delimiter @ [CHR 0x0A],
                   ''File: '' @ path_relative L directory fullPath @ [CHR 0x0A],
                   ''Size: '' @ formatFileSize L sz @ [CHR 0x0A],
                   delimiter @ [CHR 0x0A, CHR 0x0A],
                   content @ [CHR 0x0A]]
                  (output_str st) of
             (out, True) \<Rightarrow> st\<lparr>output_str := out, processedFiles := processedFiles st + 1\<rparr>
           | (out, False) \<Rightarrow> skip (st\<lparr>output_str := out\<rparr>)))"

text \<open>
  The whole \<open>try\<close> block: \<open>fs.stat\<close> (line 270), the size filter (lines 273-277), the
  binary filter (lines 280-286), then the read and the appends. The two filters end in
  \<open>skippedFiles++; continue\<close>, a throwing \<open>fs.stat\<close> or \<open>isBinaryFile\<close> ends in the
  \<open>skippedFiles++\<close> of the \<open>catch\<close>.
\<close>

definition processFile :: "lib \<Rightarrow> options \<Rightarrow> string \<Rightarrow> string \<Rightarrow> fileinfo \<Rightarrow> state \<Rightarrow> state" where
  "processFile L opts directory fullPath f st =
     (case stat_size f of
        None \<Rightarrow> skip st
      | Some sz \<Rightarrow>
          if \<not> includeAll opts \<and> of_nat sz > thresholdBytes opts then skip st
          else if \<not> includeAll opts then
            (case is_binary f of
               None \<Rightarrow> skip st
             | Some True \<Rightarrow> skip st
             | Some False \<Rightarrow> readAndAppend L directory fullPath sz f st)
          else readAndAppend L directory fullPath sz f st)"

subsection \<open>The walk: \<open>processDirectory\<close> (lines 255-309)\<close>

text \<open>
  \<open>processDirectory\<close> awaits \<open>fs.readdir\<close>; \<open>processEntries\<close> is its \<open>for\<close> loop over the
  entries. \<open>directory\<close> is the root that \<open>processFiles\<close> was called with, \<open>dir\<close> the
  directory being enumerated. An error of a nested call leaves the loop at once.
\<close>

function processDirectory :: "lib \<Rightarrow> options \<Rightarrow> string \<Rightarrow> string \<Rightarrow> listing \<Rightarrow> state \<Rightarrow> error + state"
  and processEntries :: "lib \<Rightarrow> options \<Rightarrow> string \<Rightarrow> string \<Rightarrow> entries \<Rightarrow> state \<Rightarrow> error + state"
where
  "processDirectory L opts directory dir None st = Inl (ReaddirError dir)"
| "processDirectory L opts directory dir (Some es) st = processEntries L opts directory dir es st"
| "processEntries L opts directory dir [] st = Inr st"
| "processEntries L opts directory dir ((name, Directory sub) # es) st =
     (if name \<noteq> ''node_modules'' \<and> name \<noteq> ''.git'' then
        (case processDirectory L opts directory (path_join L dir name) sub st of
           Inl e \<Rightarrow> Inl e
         | Inr st' \<Rightarrow> processEntries L opts directory dir es st')
      else processEntries L opts directory dir es st)"
| "processEntries L opts directory dir ((name, Other) # es) st =
     processEntries L opts directory dir es st"
| "processEntries L opts directory dir ((name, File f) # es) st =
     processEntries L opts directory dir es
       (processFile L opts directory (path_join L dir name) f st)"
  by pat_completeness auto
termination
  by (relation "measure (\<lambda>x. case x of
          Inl (L, opts, directory, dir, l, st) \<Rightarrow> size_option (size_list (size_prod (\<lambda>_. 0) size)) l
        | Inr (L, opts, directory, dir, es, st) \<Rightarrow> size_list (size_prod (\<lambda>_. 0) size) es)")
    auto

subsection \<open>\<open>processFiles\<close> (lines 244-331)\<close>

definition initial_state :: state where
  "initial_state = \<lparr>output_str = [], processedFiles = 0, skippedFiles = 0\<rparr>"

text \<open>
  The state in which the walk of \<open>processFiles\<close> ends: line 313, started from the
  initial values of lines 247-249. \<open>tree\<close> is what \<open>fs.readdir\<close> answers for the root.
\<close>

definition walk :: "lib \<Rightarrow> string \<Rightarrow> listing \<Rightarrow> options \<Rightarrow> error + state" where
  "walk L directory tree opts = processDirectory L opts directory directory tree initial_state"

text \<open>
  \<open>processFiles\<close> returns \<open>output\<close> (line 323, here \<open>output_str\<close>) or rethrows
  (line 329). The spinner and the \<open>DEBUG\<close> logging write to the terminal only and are
  left out.
\<close>

definition processFiles :: "lib \<Rightarrow> string \<Rightarrow> listing \<Rightarrow> options \<Rightarrow> error + string" where
  "processFiles L directory tree opts =
     (case walk L directory tree opts of
        Inl e \<Rightarrow> Inl e
      | Inr st \<Rightarrow> Inr (output_str st))"

section \<open>Vocabulary of the specification\<close>

subsection \<open>Reserved names, visited files, unreadable directories\<close>

definition reserved :: "string \<Rightarrow> bool" where
  "reserved name = (name = ''node_modules'' \<or> name = ''.git'')"

text \<open>
  The regular files the walk visits, each with its full path, in the order of the walk:
  every \<open>File\<close> entry of the root and of the directories below it, except below a
  directory with a reserved name. Directories and other entries are not in the list.
\<close>

function visited :: "lib \<Rightarrow> string \<Rightarrow> listing \<Rightarrow> (string \<times> fileinfo) list"
  and visited_entries :: "lib \<Rightarrow> string \<Rightarrow> entries \<Rightarrow> (string \<times> fileinfo) list"
where
  "visited L dir None = []"
| "visited L dir (Some es) = visited_entries L dir es"
| "visited_entries L dir [] = []"
| "visited_entries L dir ((name, Directory sub) # es) =
     (if reserved name then [] else visited L (path_join L dir name) sub) @ visited_entries L dir es"
| "visited_entries L dir ((name, Other) # es) = visited_entries L dir es"
| "visited_entries L dir ((name, File f) # es) = (path_join L dir name, f) # visited_entries L dir es"
  by pat_completeness auto
termination
  by (relation "measure (\<lambda>x. case x of
          Inl (L, dir, l) \<Rightarrow> size_option (size_list (size_prod (\<lambda>_. 0) size)) l
        | Inr (L, dir, es) \<Rightarrow> size_list (size_prod (\<lambda>_. 0) size) es)")
    auto

text \<open>
  Some directory that the walk enumerates cannot be enumerated: the root itself, or a
  directory below it that is not below a directory with a reserved name.
\<close>

function unreadable :: "listing \<Rightarrow> bool"
  and unreadable_entries :: "entries \<Rightarrow> bool"
where
  "unreadable None = True"
| "unreadable (Some es) = unreadable_entries es"
| "unreadable_entries [] = False"
| "unreadable_entries ((name, Directory sub) # es) =
     ((\<not> reserved name \<and> unreadable sub) \<or> unreadable_entries es)"
| "unreadable_entries ((name, Other) # es) = unreadable_entries es"
| "unreadable_entries ((name, File f) # es) = unreadable_entries es"
  by pat_completeness auto
termination
  by (relation "measure (\<lambda>x. case x of
          Inl l \<Rightarrow> size_option (size_list (size_prod (\<lambda>_. 0) size)) l
        | Inr es \<Rightarrow> size_list (size_prod (\<lambda>_. 0) size) es)")
    auto

text \<open>
  The snapshot with everything below a reserved directory forgotten: each directory
  with a reserved name, at any depth, becomes one that cannot even be enumerated.
\<close>

function prune :: "listing \<Rightarrow> listing"
  and prune_entries :: "entries \<Rightarrow> entries"
where
  "prune None = None"
| "prune (Some es) = Some (prune_entries es)"
| "prune_entries [] = []"
| "prune_entries ((name, Directory sub) # es) =
     (name, Directory (if reserved name then None else prune sub)) # prune_entries es"
| "prune_entries ((name, Other) # es) = (name, Other) # prune_entries es"
| "prune_entries ((name, File f) # es) = (name, File f) # prune_entries es"
  by pat_completeness auto
termination
  by (relation "measure (\<lambda>x. case x of
          Inl l \<Rightarrow> size_option (size_list (size_prod (\<lambda>_. 0) size)) l
        | Inr es \<Rightarrow> size_list (size_prod (\<lambda>_. 0) size) es)")
    auto

subsection \<open>The aggregator over a list of candidates\<close>

text \<open>The per-file step, applied to a list of candidate files from left to right.\<close>

definition aggregate :: "lib \<Rightarrow> options \<Rightarrow> string \<Rightarrow> (string \<times> fileinfo) list \<Rightarrow> state \<Rightarrow> state" where
  "aggregate L opts directory fs st = foldl (\<lambda>s (p, f). processFile L opts directory p f s) st fs"


subsection \<open>Records and lines, in the words of the specification\<close>

text \<open>
  The record of one file: a line feed, then the delimiter line, the path line, the size
  line, the second delimiter line, a blank line, the raw content and a trailing line
  feed.
\<close>

definition format_record :: "lib \<Rightarrow> string \<Rightarrow> string \<Rightarrow> nat \<Rightarrow> string \<Rightarrow> string" where
  "format_record L directory fullPath sz content =
     [CHR 0x0A]
     @ replicate 80 (CHR ''='') @ [CHR 0x0A]
     @ ''File: '' @ path_relative L directory fullPath @ [CHR 0x0A]
     @ ''Size: '' @ formatFileSize L sz @ [CHR 0x0A]
     @ replicate 80 (CHR ''='') @ [CHR 0x0A]
     @ [CHR 0x0A]
     @ content
     @ [CHR 0x0A]"


subsection \<open>Classification, in the words of the specification\<close>

text \<open>
  The specification's \<open>ClassificationResult\<close> and the five steps of its section 4.2:
  the size query, the size filter, the binary filter, the read, the inclusion. This
  definition follows the specification, not the code; \<open>processFile_classify\<close> below
  compares the two. The specification is silent on a detector that fails; the case is
  filed under \<open>SkippedReadError\<close> here.
\<close>

datatype classification =
    Included nat string
  | SkippedTooLarge
  | SkippedBinary
  | SkippedReadError

definition classify :: "options \<Rightarrow> fileinfo \<Rightarrow> classification" where
  "classify opts f =
     (case stat_size f of
        None \<Rightarrow> SkippedReadError
      | Some sz \<Rightarrow>
          if \<not> includeAll opts \<and> of_nat sz > thresholdBytes opts then SkippedTooLarge
          else if \<not> includeAll opts \<and> is_binary f = None then SkippedReadError
          else if \<not> includeAll opts \<and> is_binary f = Some True then SkippedBinary
          else (case contents f of
                  None \<Rightarrow> SkippedReadError
                | Some c \<Rightarrow> Included sz c))"

text \<open>
  The records of a list of candidates: one for each file classified \<open>Included\<close>, none for
  the others.
\<close>

definition record_of :: "lib \<Rightarrow> options \<Rightarrow> string \<Rightarrow> string \<times> fileinfo \<Rightarrow> string list" where
  "record_of L opts directory pf =
     (case classify opts (snd pf) of
        Included sz c \<Rightarrow> [format_record L directory (fst pf) sz c]
      | _ \<Rightarrow> [])"

definition records :: "lib \<Rightarrow> options \<Rightarrow> string \<Rightarrow> (string \<times> fileinfo) list \<Rightarrow> string list" where
  "records L opts directory fs = concat (map (record_of L opts directory) fs)"

subsection \<open>The same tree, enumerated in another order\<close>

text \<open>\<open>pick es e rest\<close>: the entry \<open>e\<close> occurs in \<open>es\<close>, and \<open>rest\<close> is \<open>es\<close> without it.\<close>

inductive pick :: "entries \<Rightarrow> string \<times> node \<Rightarrow> entries \<Rightarrow> bool" where
  pick_here: "pick (e # es) e es"
| pick_later: "pick es e rest \<Longrightarrow> pick (x # es) e (x # rest)"

code_pred (modes: i \<Rightarrow> o \<Rightarrow> o \<Rightarrow> bool) pick .

text \<open>
  Two snapshots of one tree may differ in the order in which \<open>fs.readdir\<close> reports the
  entries of a directory, and in nothing else: \<open>same_insert\<close> finds the first entry of
  one listing anywhere in the other, under the same name and with the same tree below.
\<close>

inductive same_listing :: "listing \<Rightarrow> listing \<Rightarrow> bool"
  and same_entries :: "entries \<Rightarrow> entries \<Rightarrow> bool"
  and same_node :: "node \<Rightarrow> node \<Rightarrow> bool"
where
  same_unreadable: "same_listing None None"
| same_readable: "same_entries es es' \<Longrightarrow> same_listing (Some es) (Some es')"
| same_empty: "same_entries [] []"
| same_insert: "pick es' (name, c') rest \<Longrightarrow> same_node c c' \<Longrightarrow> same_entries es rest \<Longrightarrow>
     same_entries ((name, c) # es) es'"
| same_File: "same_node (File f) (File f)"
| same_Other: "same_node Other Other"
| same_Directory: "same_listing l l' \<Longrightarrow> same_node (Directory l) (Directory l')"

code_pred (modes: i \<Rightarrow> i \<Rightarrow> bool) same_listing .

section \<open>Sample inputs\<close>

text \<open>
  Stand-ins for the library functions, used in the closed examples only: \<open>path.join\<close>
  and \<open>path.relative\<close> as Node's POSIX \<open>path\<close> computes them for a normalised absolute
  root and plain entry names, a size printed in bytes (as \<open>filesize\<close> prints a size below
  1000), and the string-length limit of Node on 64-bit platforms, \<open>2^29 - 24\<close>.
\<close>

fun decimal :: "nat \<Rightarrow> string" where
  "decimal n =
     (if n < 10 then [''0123456789'' ! n]
      else decimal (n div 10) @ [''0123456789'' ! (n mod 10)])"

declare decimal.simps [simp del]

definition sample_lib :: lib where
  "sample_lib =
     \<lparr>path_join = (\<lambda>dir name. dir @ ''/'' @ name),
      path_relative = (\<lambda>from to. drop (length from + 1) to),
      formatFileSize = (\<lambda>n. decimal n @ '' B''),
      maxStringLength = 536870888\<rparr>"

definition text_file :: "nat \<Rightarrow> string \<Rightarrow> fileinfo" where
  "text_file sz c = \<lparr>stat_size = Some sz, is_binary = Some False, contents = Some c\<rparr>"

text \<open>A binary file of 2 MB.\<close>

definition big_bin :: fileinfo where
  "big_bin = \<lparr>stat_size = Some 2097152, is_binary = Some True, contents = Some ''x''\<rparr>"

text \<open>The defaults of the command line: a threshold of 0.1 MB, \<open>includeAll\<close> off.\<close>

definition default_options :: options where
  "default_options = \<lparr>threshold = 1 / 10, includeAll = False\<rparr>"

definition tree1 :: listing where
  "tree1 = Some [(''a.txt'', File (text_file 5 ''hello'')),
                 (''sub'', Directory (Some [(''big.bin'', File big_bin)])),
                 (''.git'', Directory (Some [(''config'', File (text_file 1 ''x''))])),
                 (''link'', Other)]"

definition tree2 :: listing where
  "tree2 = Some [(''a.txt'', File (text_file 5 ''hello'')),
                 (''sub'', Directory (Some [(''b.txt'', File (text_file 5 ''world''))]))]"

text \<open>\<open>tree2\<close> with the entries of the root reported in the other order.\<close>

definition tree2' :: listing where
  "tree2' = Some [(''sub'', Directory (Some [(''b.txt'', File (text_file 5 ''world''))])),
                  (''a.txt'', File (text_file 5 ''hello''))]"

text \<open>Reserved directories below \<open>src\<close>, one of them not enumerable.\<close>

definition tree3 :: listing where
  "tree3 = Some [(''src'', Directory (Some
                   [(''node_modules'', Directory (Some [(''dep.js'', File (text_file 5 ''hello''))])),
                    (''.git'', Directory None)]))]"

text \<open>A directory that cannot be enumerated, met after a file has been processed.\<close>

definition tree4 :: listing where
  "tree4 = Some [(''a.txt'', File (text_file 5 ''hello'')),
                 (''sub'', Directory (Some [(''locked'', Directory None)]))]"

text \<open>A small binary file, a file whose read fails, a file on which the detector fails.\<close>

definition small_bin :: fileinfo where
  "small_bin = \<lparr>stat_size = Some 4, is_binary = Some True, contents = Some ''x''\<rparr>"

definition broken_file :: fileinfo where
  "broken_file = \<lparr>stat_size = Some 5, is_binary = Some False, contents = None\<rparr>"

definition unsniffable :: fileinfo where
  "unsniffable = \<lparr>stat_size = Some 5, is_binary = None, contents = Some ''hello''\<rparr>"

text \<open>
  Files of \<open>n\<close> characters \<open>a\<close>: a text file and one that the detector calls binary.
\<close>

definition long_text :: "nat \<Rightarrow> fileinfo" where
  "long_text n =
     \<lparr>stat_size = Some n, is_binary = Some False, contents = Some (replicate n (CHR ''a''))\<rparr>"

definition long_bin :: "nat \<Rightarrow> fileinfo" where
  "long_bin n =
     \<lparr>stat_size = Some n, is_binary = Some True, contents = Some (replicate n (CHR ''a''))\<rparr>"

text \<open>The four pieces of a record that come before the content.\<close>

definition header :: "string \<Rightarrow> string \<Rightarrow> string" where
  "header rel size_text =
     [CHR 0x0A] @ replicate 80 (CHR ''='') @ [CHR 0x0A]
     @ ''File: '' @ rel @ [CHR 0x0A]
     @ ''Size: '' @ size_text @ [CHR 0x0A]
     @ replicate 80 (CHR ''='') @ [CHR 0x0A, CHR 0x0A]"

text \<open>Options under which a file of any size in the examples passes the size filter.\<close>

definition wide_options :: options where
  "wide_options = \<lparr>threshold = 1024, includeAll = False\<rparr>"

text \<open>\<open>includeAll\<close> on.\<close>

definition include_all_options :: options where
  "include_all_options = \<lparr>threshold = 1 / 10, includeAll = True\<rparr>"

text \<open>
  Three files whose records do not fit into one string together, enumerated in two
  orders.
\<close>

definition tree5 :: listing where
  "tree5 = Some [(''x'', File (long_text 500000000)),
                 (''y'', File (long_text 40000000)),
                 (''z'', File (long_text 40000000))]"

definition tree5' :: listing where
  "tree5' = Some [(''y'', File (long_text 40000000)),
                  (''z'', File (long_text 40000000)),
                  (''x'', File (long_text 500000000))]"


section \<open>The walk as walker and aggregator\<close>

lemma aggregate_Nil: "aggregate L opts d [] st = st"
  by (simp add: aggregate_def)

lemma aggregate_Cons:
  "aggregate L opts d ((p, f) # fs) st = aggregate L opts d fs (processFile L opts d p f st)"
  by (simp add: aggregate_def)

lemma aggregate_append:
  "aggregate L opts d (fs @ gs) st = aggregate L opts d gs (aggregate L opts d fs st)"
  by (simp add: aggregate_def)

text \<open>
  When every directory can be enumerated, the walk is the aggregator run over the
  visited files; when one cannot, the walk ends in an error.
\<close>

lemma walk_ok:
  "\<not> unreadable l \<Longrightarrow>
     processDirectory L opts d dir l st = Inr (aggregate L opts d (visited L dir l) st)"
  "\<not> unreadable_entries es \<Longrightarrow>
     processEntries L opts d dir es st = Inr (aggregate L opts d (visited_entries L dir es) st)"
  by (induction L opts d dir l st and L opts d dir es st rule: processDirectory_processEntries.induct)
     (auto simp: aggregate_Nil aggregate_Cons aggregate_append reserved_def)

lemma walk_fails:
  "unreadable l \<Longrightarrow> \<exists>e. processDirectory L opts d dir l st = Inl e"
  "unreadable_entries es \<Longrightarrow> \<exists>e. processEntries L opts d dir es st = Inl e"
  by (induction L opts d dir l st and L opts d dir es st rule: processDirectory_processEntries.induct)
     (auto simp: reserved_def split: sum.splits)

lemma walk_Inr:
  assumes "processDirectory L opts d dir l st = Inr st'"
  shows "\<not> unreadable l" and "st' = aggregate L opts d (visited L dir l) st"
proof -
  show u: "\<not> unreadable l"
    using assms walk_fails(1)[of l L opts d dir st] by auto
  show "st' = aggregate L opts d (visited L dir l) st"
    using assms walk_ok(1)[OF u, of L opts d dir st] by simp
qed

lemma walk_prune:
  "processDirectory L opts d dir (prune l) st = processDirectory L opts d dir l st"
  "processEntries L opts d dir (prune_entries es) st = processEntries L opts d dir es st"
  by (induction L opts d dir l st and L opts d dir es st rule: processDirectory_processEntries.induct)
     (auto simp: reserved_def split: sum.splits)

lemma processEntries_File:
  "processEntries L opts directory dir ((name, File f) # es) st =
   processEntries L opts directory dir es (processFile L opts directory (path_join L dir name) f st)"
  by simp

subsection \<open>Appending within the string-length limit\<close>

lemma appendPieces_fits:
  "length out + length (concat ps) \<le> m \<Longrightarrow> appendPieces m ps out = (out @ concat ps, True)"
  by (induction ps arbitrary: out) simp_all



lemma pieces_format_record:
  "concat [[CHR 0x0A] @ delimiter @ [CHR 0x0A],
           ''File: '' @ path_relative L d p @ [CHR 0x0A],
           ''Size: '' @ formatFileSize L sz @ [CHR 0x0A],
           delimiter @ [CHR 0x0A, CHR 0x0A],
           c @ [CHR 0x0A]] = format_record L d p sz c"
  by (simp add: format_record_def delimiter_def)

lemma readAndAppend_fits:
  assumes "contents f = Some c"
    and "length (output_str st) + length (format_record L d p sz c) \<le> maxStringLength L"
  shows "readAndAppend L d p sz f st =
           st\<lparr>output_str := output_str st @ format_record L d p sz c,
              processedFiles := processedFiles st + 1\<rparr>"
proof -
  let ?ps = "[[CHR 0x0A] @ delimiter @ [CHR 0x0A],
              ''File: '' @ path_relative L d p @ [CHR 0x0A],
              ''Size: '' @ formatFileSize L sz @ [CHR 0x0A],
              delimiter @ [CHR 0x0A, CHR 0x0A],
              c @ [CHR 0x0A]]"
  have "length (output_str st) + length (concat ?ps) \<le> maxStringLength L"
    using assms(2) by (simp only: pieces_format_record)
  then have "appendPieces (maxStringLength L) ?ps (output_str st)
      = (output_str st @ format_record L d p sz c, True)"
    by (simp only: appendPieces_fits pieces_format_record)
  then show ?thesis by (simp add: readAndAppend_def assms(1))
qed

subsection \<open>The per-file step\<close>

lemma readAndAppend_counters:
  "(processedFiles (readAndAppend L d p sz f st) = processedFiles st + 1 \<and>
    skippedFiles (readAndAppend L d p sz f st) = skippedFiles st) \<or>
   (processedFiles (readAndAppend L d p sz f st) = processedFiles st \<and>
    skippedFiles (readAndAppend L d p sz f st) = skippedFiles st + 1)"
  by (auto simp: readAndAppend_def skip_def split: option.splits prod.splits bool.splits)

lemma processFile_counters:
  "(processedFiles (processFile L opts d p f st) = processedFiles st + 1 \<and>
    skippedFiles (processFile L opts d p f st) = skippedFiles st) \<or>
   (processedFiles (processFile L opts d p f st) = processedFiles st \<and>
    skippedFiles (processFile L opts d p f st) = skippedFiles st + 1)"
  using readAndAppend_counters[of L d p _ f st]
  by (auto simp: processFile_def skip_def split: option.splits bool.splits)





lemma processFile_fits:
  assumes "classify opts f = Included sz c"
    and "length (output_str st) + length (format_record L d p sz c) \<le> maxStringLength L"
  shows "processFile L opts d p f st =
           st\<lparr>output_str := output_str st @ format_record L d p sz c,
              processedFiles := processedFiles st + 1\<rparr>"
proof -
  have s: "stat_size f = Some sz" and c: "contents f = Some c"
    and pass: "includeAll opts \<or> (\<not> of_nat sz > thresholdBytes opts \<and> is_binary f = Some False)"
    using assms(1) by (auto simp: classify_def split: option.splits if_splits bool.splits)
  have "processFile L opts d p f st = readAndAppend L d p sz f st"
    using pass by (auto simp: processFile_def s)
  then show ?thesis using readAndAppend_fits[OF c assms(2)] by simp
qed

lemma readAndAppend_None: "contents f = None \<Longrightarrow> readAndAppend L d p sz f st = skip st"
  by (simp add: readAndAppend_def)

lemma processFile_not_Included:
  assumes "\<And>sz c. classify opts f \<noteq> Included sz c"
  shows "processFile L opts d p f st = skip st"
proof (cases "stat_size f")
  case None
  then show ?thesis by (simp add: processFile_def)
next
  case (Some sz)
  note sz = this
  show ?thesis
  proof (cases "contents f")
    case None
    then show ?thesis
      by (simp add: processFile_def sz readAndAppend_None split: option.splits bool.splits)
  next
    case (Some c)
    have "\<not> includeAll opts \<and> (of_nat sz > thresholdBytes opts \<or> is_binary f \<noteq> Some False)"
      using assms[of sz c] by (auto simp: classify_def sz Some split: if_splits)
    then show ?thesis
      by (auto simp: processFile_def sz split: option.splits bool.splits)
  qed
qed

subsection \<open>The aggregator\<close>

lemma aggregate_counters:
  "processedFiles (aggregate L opts d fs st) + skippedFiles (aggregate L opts d fs st)
     = processedFiles st + skippedFiles st + length fs"
proof (induction fs arbitrary: st)
  case Nil
  show ?case by (simp add: aggregate_Nil)
next
  case (Cons a fs)
  obtain p f where a: "a = (p, f)" by (cases a)
  show ?case
    using processFile_counters[of L opts d p f st]
    by (auto simp: a aggregate_Cons Cons.IH)
qed




lemma length_record_of: "length (record_of L opts d pf) \<le> 1"
  by (simp add: record_of_def split: classification.splits)

lemma length_records: "length (records L opts d fs) \<le> length fs"
  unfolding records_def
  by (induction fs) (auto intro: le_trans[OF add_mono[OF length_record_of]])

lemma records_Cons: "records L opts d (a # fs) = record_of L opts d a @ records L opts d fs"
  by (simp add: records_def)

text \<open>
  When the records of all the candidates fit into one string, no append fails: the text
  grows by these records, and a candidate is processed exactly when it is classified
  \<open>Included\<close>.
\<close>

lemma aggregate_fits:
  "length (output_str st) + length (concat (records L opts d fs)) \<le> maxStringLength L \<Longrightarrow>
     aggregate L opts d fs st =
       st\<lparr>output_str := output_str st @ concat (records L opts d fs),
          processedFiles := processedFiles st + length (records L opts d fs),
          skippedFiles := skippedFiles st + (length fs - length (records L opts d fs))\<rparr>"
proof (induction fs arbitrary: st)
  case Nil
  show ?case by (simp add: aggregate_Nil records_def)
next
  case (Cons a fs)
  obtain p f where a: "a = (p, f)" by (cases a)
  have le: "length (records L opts d fs) \<le> length fs" by (rule length_records)
  show ?case
  proof (cases "\<exists>sz c. classify opts f = Included sz c")
    case True
    then obtain sz c where cl: "classify opts f = Included sz c" by blast
    have r: "record_of L opts d (p, f) = [format_record L d p sz c]"
      by (simp add: record_of_def cl)
    have fit: "length (output_str st) + length (format_record L d p sz c) \<le> maxStringLength L"
      using Cons.prems by (simp add: a records_Cons r)
    let ?st = "st\<lparr>output_str := output_str st @ format_record L d p sz c,
                   processedFiles := processedFiles st + 1\<rparr>"
    have step: "processFile L opts d p f st = ?st" by (rule processFile_fits[OF cl fit])
    have "length (output_str ?st) + length (concat (records L opts d fs)) \<le> maxStringLength L"
      using Cons.prems by (simp add: a records_Cons r)
    from Cons.IH[OF this] show ?thesis using le
      by (simp add: a aggregate_Cons step records_Cons r)
  next
    case False
    then have r: "record_of L opts d (p, f) = []"
      by (auto simp: record_of_def split: classification.splits)
    have step: "processFile L opts d p f st = skip st"
      using False by (intro processFile_not_Included) auto
    have "length (output_str (skip st)) + length (concat (records L opts d fs)) \<le> maxStringLength L"
      using Cons.prems by (simp add: a records_Cons r skip_def)
    from Cons.IH[OF this] show ?thesis using le
      by (simp add: a aggregate_Cons step records_Cons r skip_def)
  qed
qed


subsection \<open>Lines\<close>








subsection \<open>Another order of enumeration\<close>

lemma pick_split: "pick es e rest \<Longrightarrow> \<exists>xs ys. es = xs @ e # ys \<and> rest = xs @ ys"
proof (induction rule: pick.induct)
  case (pick_here e es)
  have "e # es = [] @ e # es \<and> es = [] @ es" by simp
  then show ?case by blast
next
  case (pick_later es e rest x)
  then obtain xs ys where "es = xs @ e # ys" and "rest = xs @ ys" by blast
  then have "x # es = (x # xs) @ e # ys \<and> x # rest = (x # xs) @ ys" by simp
  then show ?case by blast
qed

lemma visited_entries_append:
  "visited_entries L dir (xs @ ys) = visited_entries L dir xs @ visited_entries L dir ys"
proof (induction xs)
  case Nil
  show ?case by simp
next
  case (Cons a xs)
  obtain name c where a: "a = (name, c)" by (cases a)
  show ?case using Cons.IH by (cases c) (simp_all add: a)
qed

lemma unreadable_entries_append:
  "unreadable_entries (xs @ ys) = (unreadable_entries xs \<or> unreadable_entries ys)"
proof (induction xs)
  case Nil
  show ?case by simp
next
  case (Cons a xs)
  obtain name c where a: "a = (name, c)" by (cases a)
  show ?case using Cons.IH by (cases c) (auto simp: a)
qed

lemma visited_entries_Cons:
  "visited_entries L dir (e # es) = visited_entries L dir [e] @ visited_entries L dir es"
  using visited_entries_append[of L dir "[e]" es] by simp

lemma unreadable_entries_Cons:
  "unreadable_entries (e # es) = (unreadable_entries [e] \<or> unreadable_entries es)"
  using unreadable_entries_append[of "[e]" es] by simp

lemma same_visited:
  "same_listing l l' \<Longrightarrow>
     (\<forall>dir. mset (visited L dir l) = mset (visited L dir l')) \<and> unreadable l = unreadable l'"
  "same_entries es es' \<Longrightarrow>
     (\<forall>dir. mset (visited_entries L dir es) = mset (visited_entries L dir es')) \<and>
     unreadable_entries es = unreadable_entries es'"
  "same_node c c' \<Longrightarrow>
     (\<forall>dir name. mset (visited_entries L dir [(name, c)]) = mset (visited_entries L dir [(name, c')])) \<and>
     (\<forall>name. unreadable_entries [(name, c)] = unreadable_entries [(name, c')])"
proof (induction rule: same_listing_same_entries_same_node.inducts)
  case (same_insert es' name c' rest c es)
  obtain xs ys where es': "es' = xs @ (name, c') # ys" and rest: "rest = xs @ ys"
    using pick_split[OF same_insert.hyps(1)] by blast
  have v: "mset (visited_entries L dir ((name, c) # es)) = mset (visited_entries L dir es')" for dir
  proof -
    have "mset (visited_entries L dir ((name, c) # es))
        = mset (visited_entries L dir [(name, c)]) + mset (visited_entries L dir es)"
      by (subst visited_entries_Cons) simp
    also have "\<dots> = mset (visited_entries L dir [(name, c')]) + mset (visited_entries L dir (xs @ ys))"
      using same_insert.IH by (simp add: rest)
    also have "\<dots> = mset (visited_entries L dir (xs @ (name, c') # ys))"
      by (simp add: visited_entries_append visited_entries_Cons[of L dir "(name, c')" ys])
    finally show ?thesis by (simp add: es')
  qed
  have u: "unreadable_entries ((name, c) # es) = unreadable_entries es'"
  proof -
    have "unreadable_entries ((name, c) # es)
        = (unreadable_entries [(name, c)] \<or> unreadable_entries es)"
      by (rule unreadable_entries_Cons)
    also have "\<dots> = (unreadable_entries [(name, c')] \<or> unreadable_entries (xs @ ys))"
      using same_insert.IH by (simp add: rest)
    also have "\<dots> = unreadable_entries (xs @ (name, c') # ys)"
      by (auto simp: unreadable_entries_append unreadable_entries_Cons[of "(name, c')" ys])
    finally show ?thesis by (simp add: es')
  qed
  show ?case using v u by blast
qed simp_all

lemma mset_records:
  assumes "mset fs = mset gs"
  shows "mset (records L opts d fs) = mset (records L opts d gs)"
proof -
  have r: "mset (records L opts d hs) = (\<Sum>x\<in>#mset hs. mset (record_of L opts d x))" for hs
    unfolding records_def by (induction hs) simp_all
  show ?thesis by (simp add: r assms)
qed

lemma length_concat_mset:
  assumes "mset rs = mset rs'"
  shows "length (concat rs) = length (concat rs')"
proof -
  have r: "length (concat xs) = (\<Sum>x\<in>#mset xs. length x)" for xs :: "'a list list"
    by (induction xs) simp_all
  show ?thesis by (simp add: r assms)
qed

subsection \<open>The sample runs\<close>

lemma decimal_digit: "n < 10 \<Longrightarrow> decimal n = [''0123456789'' ! n]"
  by (subst decimal.simps) simp

lemma decimal_more: "\<not> n < 10 \<Longrightarrow> decimal n = decimal (n div 10) @ [''0123456789'' ! (n mod 10)]"
  by (subst decimal.simps) simp

lemma decimal_values:
  "decimal 1 = ''1''" "decimal 4 = ''4''" "decimal 5 = ''5''"
  "decimal 2097152 = ''2097152''" "decimal 536870800 = ''536870800''"
  by (simp_all add: decimal_digit decimal_more)

lemma delimiter_literal:
  "replicate 80 (CHR ''='') =
     ''================================================================================''"
  by (simp add: eval_nat_numeral)

lemma decimal_values2:
  "decimal 500000000 = ''500000000''" "decimal 40000000 = ''40000000''"
  by (simp_all add: decimal_digit decimal_more)

lemmas run_defs = walk_def processFiles_def processFile_def readAndAppend_def thresholdBytes_def
  initial_state_def skip_def sample_lib_def delimiter_def decimal_values decimal_values2

lemma walk_tree2:
  "walk sample_lib ''/repo'' tree2 default_options =
     Inr \<lparr>output_str = format_record sample_lib ''/repo'' ''/repo/a.txt'' 5 ''hello''
                        @ format_record sample_lib ''/repo'' ''/repo/sub/b.txt'' 5 ''world'',
          processedFiles = 2, skippedFiles = 0\<rparr>"
  by (simp add: run_defs tree2_def default_options_def text_file_def format_record_def)

lemma walk_tree2_literal:
  "walk sample_lib ''/repo'' tree2 default_options =
     Inr \<lparr>output_str = ''\<newline>================================================================================\<newline>File: a.txt\<newline>Size: 5 B\<newline>================================================================================\<newline>\<newline>hello\<newline>\<newline>================================================================================\<newline>File: sub/b.txt\<newline>Size: 5 B\<newline>================================================================================\<newline>\<newline>world\<newline>'',
          processedFiles = 2, skippedFiles = 0\<rparr>"
  by (simp add: run_defs tree2_def default_options_def text_file_def delimiter_literal)

lemma same_tree2: "same_listing tree2 tree2'"
proof -
  let ?b = "(''b.txt'', File (text_file 5 ''world''))"
  let ?sub = "(''sub'', Directory (Some [?b]))"
  let ?a = "(''a.txt'', File (text_file 5 ''hello''))"
  have b: "same_entries [?b] [?b]"
    by (rule same_insert[OF pick_here same_File same_empty])
  have s: "same_entries [?sub] [?sub]"
    by (rule same_insert[OF pick_here same_Directory[OF same_readable[OF b]] same_empty])
  have "same_entries [?a, ?sub] [?sub, ?a]"
    by (rule same_insert[OF pick_later[OF pick_here] same_File s])
  then show ?thesis unfolding tree2_def tree2'_def by (rule same_readable)
qed

lemma same_tree5: "same_listing tree5 tree5'"
proof -
  let ?x = "(''x'', File (long_text 500000000))"
  let ?y = "(''y'', File (long_text 40000000))"
  let ?z = "(''z'', File (long_text 40000000))"
  have z: "same_entries [?z] [?z]"
    by (rule same_insert[OF pick_here same_File same_empty])
  have yz: "same_entries [?y, ?z] [?y, ?z]"
    by (rule same_insert[OF pick_here same_File z])
  have "same_entries [?x, ?y, ?z] [?y, ?z, ?x]"
    by (rule same_insert[OF pick_later[OF pick_later[OF pick_here]] same_File yz])
  then show ?thesis unfolding tree5_def tree5'_def by (rule same_readable)
qed

lemma walk_tree5:
  "walk sample_lib ''/repo'' tree5 include_all_options =
     Inr \<lparr>output_str = format_record sample_lib ''/repo'' ''/repo/x'' 500000000
                          (replicate 500000000 (CHR ''a''))
                        @ header ''y'' ''40000000 B'' @ header ''z'' ''40000000 B'',
          processedFiles = 1, skippedFiles = 2\<rparr>"
  by (simp add: run_defs tree5_def include_all_options_def long_text_def format_record_def header_def)

lemma walk_tree5':
  "walk sample_lib ''/repo'' tree5' include_all_options =
     Inr \<lparr>output_str = format_record sample_lib ''/repo'' ''/repo/y'' 40000000
                          (replicate 40000000 (CHR ''a''))
                        @ format_record sample_lib ''/repo'' ''/repo/z'' 40000000
                          (replicate 40000000 (CHR ''a''))
                        @ header ''x'' ''500000000 B'',
          processedFiles = 2, skippedFiles = 1\<rparr>"
  by (simp add: run_defs tree5'_def include_all_options_def long_text_def format_record_def header_def)



section \<open>The claims\<close>

text \<open>
  C1. In a run that ends without a fatal error, the final \<open>processedFiles\<close> plus the
  final \<open>skippedFiles\<close> is the number of regular files visited: directories, other
  entries and everything below a reserved directory are not among the visited files.
  Each visited file is one call of the per-file step, which adds one to exactly one of
  the two counters and leaves the other as it was.
\<close>

theorem counters_sum_visited:
  assumes "walk L directory tree opts = Inr st"
  shows "processedFiles st + skippedFiles st = length (visited L directory tree) \<and>
         ((processedFiles (processFile L opts directory p f s) = processedFiles s + 1 \<and>
           skippedFiles (processFile L opts directory p f s) = skippedFiles s) \<or>
          (processedFiles (processFile L opts directory p f s) = processedFiles s \<and>
           skippedFiles (processFile L opts directory p f s) = skippedFiles s + 1))"
proof -
  have st: "st = aggregate L opts directory (visited L directory tree) initial_state"
    using assms walk_Inr(2) by (simp add: walk_def)
  have "processedFiles st + skippedFiles st = length (visited L directory tree)"
    using aggregate_counters[of L opts directory "visited L directory tree" initial_state]
    by (simp add: st initial_state_def)
  then show ?thesis using processFile_counters[of L opts directory p f s] by blast
qed

theorem counters_sum_visited_witness:
  "walk sample_lib ''/repo'' tree1 default_options =
     Inr \<lparr>output_str = format_record sample_lib ''/repo'' ''/repo/a.txt'' 5 ''hello'',
          processedFiles = 1, skippedFiles = 1\<rparr> \<and>
   length (visited sample_lib ''/repo'' tree1) = 2"
proof -
  have h: "walk sample_lib ''/repo'' tree1 default_options =
     Inr \<lparr>output_str = format_record sample_lib ''/repo'' ''/repo/a.txt'' 5 ''hello'',
          processedFiles = 1, skippedFiles = 1\<rparr>"
    by (simp add: run_defs tree1_def default_options_def text_file_def big_bin_def format_record_def)
  show ?thesis
    using h counters_sum_visited[OF h, of "''/repo/a.txt''" "text_file 5 ''hello''" initial_state]
    by simp
qed

text \<open>
  C2, as stated, fails: \<open>processFiles\<close> returns the text alone. A root with no entry and
  a root with one skipped file return the same value, although their counters differ.
\<close>

theorem processFiles_result_lacks_counters:
  "processFiles sample_lib ''/repo'' (Some []) default_options = Inr [] \<and>
   processFiles sample_lib ''/repo'' (Some [(''big.bin'', File big_bin)]) default_options = Inr [] \<and>
   walk sample_lib ''/repo'' (Some []) default_options =
     Inr \<lparr>output_str = [], processedFiles = 0, skippedFiles = 0\<rparr> \<and>
   walk sample_lib ''/repo'' (Some [(''big.bin'', File big_bin)]) default_options =
     Inr \<lparr>output_str = [], processedFiles = 0, skippedFiles = 1\<rparr>"
  by (simp add: run_defs default_options_def big_bin_def)

text \<open>
  C2, amended. A successful invocation of \<open>processFiles\<close> returns the aggregated text
  alone: the text that the per-file steps build up over the visited files in the order
  of the walk. When the records of the files that pass the filters fit into one string
  together, that text is the concatenation of these records.
\<close>

theorem processFiles_returns_text:
  assumes "walk L directory tree opts = Inr st"
  shows "processFiles L directory tree opts =
           Inr (output_str (aggregate L opts directory (visited L directory tree) initial_state)) \<and>
         (length (concat (records L opts directory (visited L directory tree))) \<le> maxStringLength L \<longrightarrow>
            processFiles L directory tree opts =
              Inr (concat (records L opts directory (visited L directory tree))))"
proof -
  have st: "st = aggregate L opts directory (visited L directory tree) initial_state"
    using assms walk_Inr(2) by (simp add: walk_def)
  have a: "processFiles L directory tree opts =
           Inr (output_str (aggregate L opts directory (visited L directory tree) initial_state))"
    using assms by (simp add: processFiles_def st)
  have b: "processFiles L directory tree opts =
              Inr (concat (records L opts directory (visited L directory tree)))"
    if "length (concat (records L opts directory (visited L directory tree))) \<le> maxStringLength L"
    using aggregate_fits[of initial_state L opts directory "visited L directory tree"] that
    by (simp add: a initial_state_def)
  show ?thesis using a b by blast
qed

theorem processFiles_returns_text_witness:
  "walk sample_lib ''/repo'' tree2 default_options =
     Inr \<lparr>output_str = ''\<newline>================================================================================\<newline>File: a.txt\<newline>Size: 5 B\<newline>================================================================================\<newline>\<newline>hello\<newline>\<newline>================================================================================\<newline>File: sub/b.txt\<newline>Size: 5 B\<newline>================================================================================\<newline>\<newline>world\<newline>'',
          processedFiles = 2, skippedFiles = 0\<rparr> \<and>
   length (concat (records sample_lib default_options ''/repo'' (visited sample_lib ''/repo'' tree2)))
     \<le> maxStringLength sample_lib \<and>
   processFiles sample_lib ''/repo'' tree2 default_options =
     Inr ''\<newline>================================================================================\<newline>File: a.txt\<newline>Size: 5 B\<newline>================================================================================\<newline>\<newline>hello\<newline>\<newline>================================================================================\<newline>File: sub/b.txt\<newline>Size: 5 B\<newline>================================================================================\<newline>\<newline>world\<newline>'' \<and>
   concat (records sample_lib default_options ''/repo'' (visited sample_lib ''/repo'' tree2)) =
     ''\<newline>================================================================================\<newline>File: a.txt\<newline>Size: 5 B\<newline>================================================================================\<newline>\<newline>hello\<newline>\<newline>================================================================================\<newline>File: sub/b.txt\<newline>Size: 5 B\<newline>================================================================================\<newline>\<newline>world\<newline>''"
proof -
  have r: "concat (records sample_lib default_options ''/repo'' (visited sample_lib ''/repo'' tree2)) =
     ''\<newline>================================================================================\<newline>File: a.txt\<newline>Size: 5 B\<newline>================================================================================\<newline>\<newline>hello\<newline>\<newline>================================================================================\<newline>File: sub/b.txt\<newline>Size: 5 B\<newline>================================================================================\<newline>\<newline>world\<newline>''"
    by (simp add: records_def record_of_def classify_def tree2_def reserved_def text_file_def
        default_options_def thresholdBytes_def format_record_def sample_lib_def decimal_values
        delimiter_literal)
  have l: "length (concat (records sample_lib default_options ''/repo'' (visited sample_lib ''/repo'' tree2)))
     \<le> maxStringLength sample_lib"
    unfolding r by (simp add: sample_lib_def)
  have "processFiles sample_lib ''/repo'' tree2 default_options =
      Inr (concat (records sample_lib default_options ''/repo'' (visited sample_lib ''/repo'' tree2)))"
    using processFiles_returns_text[OF walk_tree2_literal] l by blast
  then have p: "processFiles sample_lib ''/repo'' tree2 default_options =
     Inr ''\<newline>================================================================================\<newline>File: a.txt\<newline>Size: 5 B\<newline>================================================================================\<newline>\<newline>hello\<newline>\<newline>================================================================================\<newline>File: sub/b.txt\<newline>Size: 5 B\<newline>================================================================================\<newline>\<newline>world\<newline>''"
    by (simp only: r)
  show ?thesis using walk_tree2_literal l r p by blast
qed

text \<open>
  C3, as stated, fails in its second half: with \<open>includeAll\<close> on, a file of 536870800
  characters whose size query and read succeed is not included. The fifth \<open>output +=\<close>
  would pass the string-length limit and throws; the file is counted in
  \<open>skippedFiles\<close>.
\<close>

theorem size_bypass_fails_at_string_limit:
  "includeAll include_all_options \<and>
   stat_size (long_text 536870800) = Some 536870800 \<and>
   contents (long_text 536870800) = Some (replicate 536870800 (CHR ''a'')) \<and>
   walk sample_lib ''/repo'' (Some [(''big.txt'', File (long_text 536870800))]) include_all_options =
     Inr \<lparr>output_str = ''\<newline>================================================================================\<newline>File: big.txt\<newline>Size: 536870800 B\<newline>================================================================================\<newline>\<newline>'',
          processedFiles = 0, skippedFiles = 1\<rparr>"
  by (simp add: run_defs include_all_options_def long_text_def delimiter_literal)

text \<open>
  C3, amended. A visited regular file whose size is strictly greater than the threshold
  is skipped when \<open>includeAll\<close> is off: \<open>skippedFiles\<close> goes up by one and nothing is
  appended; a root that holds nothing but such a file gives one skipped file, no
  processed file and an empty text. When \<open>includeAll\<close> is on, a file of any size whose
  read succeeds is included, provided the text so far and the record of the file do not
  exceed the string-length limit together.
\<close>

theorem size_filter:
  "(\<not> includeAll opts \<and> stat_size f = Some sz \<and> of_nat sz > thresholdBytes opts \<longrightarrow>
      processEntries L opts directory dir ((name, File f) # es) st =
      processEntries L opts directory dir es (st\<lparr>skippedFiles := skippedFiles st + 1\<rparr>) \<and>
      walk L directory (Some [(name, File f)]) opts =
        Inr \<lparr>output_str = [], processedFiles = 0, skippedFiles = 1\<rparr> \<and>
      processFiles L directory (Some [(name, File f)]) opts = Inr []) \<and>
   (includeAll opts \<and> stat_size f = Some sz \<and> contents f = Some c \<and>
    length (output_str st) + length (format_record L directory (path_join L dir name) sz c)
      \<le> maxStringLength L \<longrightarrow>
      processEntries L opts directory dir ((name, File f) # es) st =
      processEntries L opts directory dir es
        (st\<lparr>output_str := output_str st @ format_record L directory (path_join L dir name) sz c,
           processedFiles := processedFiles st + 1\<rparr>))"
proof -
  have a: "processEntries L opts directory dir ((name, File f) # es) st =
      processEntries L opts directory dir es (st\<lparr>skippedFiles := skippedFiles st + 1\<rparr>) \<and>
      walk L directory (Some [(name, File f)]) opts =
        Inr \<lparr>output_str = [], processedFiles = 0, skippedFiles = 1\<rparr> \<and>
      processFiles L directory (Some [(name, File f)]) opts = Inr []"
    if "\<not> includeAll opts \<and> stat_size f = Some sz \<and> of_nat sz > thresholdBytes opts"
    using that by (simp add: processFile_def skip_def walk_def processFiles_def initial_state_def)
  have b: "processEntries L opts directory dir ((name, File f) # es) st =
      processEntries L opts directory dir es
        (st\<lparr>output_str := output_str st @ format_record L directory (path_join L dir name) sz c,
           processedFiles := processedFiles st + 1\<rparr>)"
    if h: "includeAll opts \<and> stat_size f = Some sz \<and> contents f = Some c \<and>
      length (output_str st) + length (format_record L directory (path_join L dir name) sz c)
        \<le> maxStringLength L"
  proof -
    have "classify opts f = Included sz c" using h by (simp add: classify_def)
    then show ?thesis using h by (simp only: processEntries_File processFile_fits)
  qed
  show ?thesis using a b by blast
qed

theorem size_filter_witness:
  "(\<not> includeAll default_options \<and> stat_size big_bin = Some 2097152 \<and>
    of_nat 2097152 > thresholdBytes default_options) \<and>
   walk sample_lib ''/repo'' (Some [(''big.bin'', File big_bin)]) default_options =
     Inr \<lparr>output_str = [], processedFiles = 0, skippedFiles = 1\<rparr> \<and>
   processFiles sample_lib ''/repo'' (Some [(''big.bin'', File big_bin)]) default_options = Inr [] \<and>
   (includeAll include_all_options \<and> stat_size big_bin = Some 2097152 \<and> contents big_bin = Some ''x'' \<and>
    length (output_str initial_state)
      + length (format_record sample_lib ''/repo'' (path_join sample_lib ''/repo'' ''big.bin'') 2097152 ''x'')
      \<le> maxStringLength sample_lib) \<and>
   processEntries sample_lib include_all_options ''/repo'' ''/repo''
       [(''big.bin'', File big_bin)] initial_state =
     Inr \<lparr>output_str = ''\<newline>================================================================================\<newline>File: big.bin\<newline>Size: 2097152 B\<newline>================================================================================\<newline>\<newline>x\<newline>'',
          processedFiles = 1, skippedFiles = 0\<rparr>"
proof -
  have h1: "\<not> includeAll default_options \<and> stat_size big_bin = Some 2097152 \<and>
    of_nat 2097152 > thresholdBytes default_options"
    by (simp add: default_options_def big_bin_def thresholdBytes_def)
  have h2: "includeAll include_all_options \<and> stat_size big_bin = Some 2097152 \<and>
    contents big_bin = Some ''x'' \<and>
    length (output_str initial_state)
      + length (format_record sample_lib ''/repo'' (path_join sample_lib ''/repo'' ''big.bin'') 2097152 ''x'')
      \<le> maxStringLength sample_lib"
    by (simp add: big_bin_def include_all_options_def initial_state_def format_record_def
        sample_lib_def decimal_values)
  have r: "format_record sample_lib ''/repo'' (path_join sample_lib ''/repo'' ''big.bin'') 2097152 ''x'' =
     ''\<newline>================================================================================\<newline>File: big.bin\<newline>Size: 2097152 B\<newline>================================================================================\<newline>\<newline>x\<newline>''"
    by (simp add: format_record_def sample_lib_def decimal_values delimiter_literal)
  have c1: "walk sample_lib ''/repo'' (Some [(''big.bin'', File big_bin)]) default_options =
     Inr \<lparr>output_str = [], processedFiles = 0, skippedFiles = 1\<rparr> \<and>
   processFiles sample_lib ''/repo'' (Some [(''big.bin'', File big_bin)]) default_options = Inr []"
    using h1 size_filter[of default_options big_bin 2097152 sample_lib "''/repo''" "''/repo''"
        "''big.bin''" "[]" initial_state "''x''"]
    by blast
  have "processEntries sample_lib include_all_options ''/repo'' ''/repo''
       [(''big.bin'', File big_bin)] initial_state =
     processEntries sample_lib include_all_options ''/repo'' ''/repo'' []
       (initial_state\<lparr>output_str := output_str initial_state
            @ format_record sample_lib ''/repo'' (path_join sample_lib ''/repo'' ''big.bin'') 2097152 ''x'',
          processedFiles := processedFiles initial_state + 1\<rparr>)"
    using h2 size_filter[of include_all_options big_bin 2097152 sample_lib "''/repo''" "''/repo''"
        "''big.bin''" "[]" initial_state "''x''"]
    by blast
  then have c2: "processEntries sample_lib include_all_options ''/repo'' ''/repo''
       [(''big.bin'', File big_bin)] initial_state =
     Inr \<lparr>output_str = ''\<newline>================================================================================\<newline>File: big.bin\<newline>Size: 2097152 B\<newline>================================================================================\<newline>\<newline>x\<newline>'',
          processedFiles = 1, skippedFiles = 0\<rparr>"
    by (simp add: r initial_state_def)
  show ?thesis using h1 h2 c1 c2 by blast
qed

text \<open>
  C4, as stated, fails in its last part: with \<open>includeAll\<close> on, a binary file of
  536870800 characters whose read succeeds is not included, for want of room in the
  string.
\<close>

theorem binary_bypass_fails_at_string_limit:
  "includeAll include_all_options \<and>
   stat_size (long_bin 536870800) = Some 536870800 \<and>
   is_binary (long_bin 536870800) = Some True \<and>
   contents (long_bin 536870800) = Some (replicate 536870800 (CHR ''a'')) \<and>
   walk sample_lib ''/repo'' (Some [(''big.bin'', File (long_bin 536870800))]) include_all_options =
     Inr \<lparr>output_str = ''\<newline>================================================================================\<newline>File: big.bin\<newline>Size: 536870800 B\<newline>================================================================================\<newline>\<newline>'',
          processedFiles = 0, skippedFiles = 1\<rparr>"
  by (simp add: run_defs include_all_options_def long_bin_def delimiter_literal)

text \<open>
  C4, amended. A visited regular file that passes the size check and that the detector
  calls binary is skipped when \<open>includeAll\<close> is off: \<open>skippedFiles\<close> goes up by one and
  no record is appended. When \<open>includeAll\<close> is on, the detector is not consulted (its
  answer, an error included, changes nothing), and a file whose read succeeds is
  included, provided the text so far and the record of the file do not exceed the
  string-length limit together.
\<close>

theorem binary_filter:
  "(\<not> includeAll opts \<and> stat_size f = Some sz \<and> \<not> of_nat sz > thresholdBytes opts \<and>
    is_binary f = Some True \<longrightarrow>
      processEntries L opts directory dir ((name, File f) # es) st =
      processEntries L opts directory dir es (st\<lparr>skippedFiles := skippedFiles st + 1\<rparr>)) \<and>
   (includeAll opts \<longrightarrow>
      processEntries L opts directory dir ((name, File (f\<lparr>is_binary := b\<rparr>)) # es) st =
      processEntries L opts directory dir ((name, File f) # es) st) \<and>
   (includeAll opts \<and> stat_size f = Some sz \<and> contents f = Some c \<and>
    length (output_str st) + length (format_record L directory (path_join L dir name) sz c)
      \<le> maxStringLength L \<longrightarrow>
      processEntries L opts directory dir ((name, File f) # es) st =
      processEntries L opts directory dir es
        (st\<lparr>output_str := output_str st @ format_record L directory (path_join L dir name) sz c,
           processedFiles := processedFiles st + 1\<rparr>))"
proof -
  have a: "\<not> includeAll opts \<and> stat_size f = Some sz \<and> \<not> of_nat sz > thresholdBytes opts \<and>
    is_binary f = Some True \<longrightarrow>
      processEntries L opts directory dir ((name, File f) # es) st =
      processEntries L opts directory dir es (st\<lparr>skippedFiles := skippedFiles st + 1\<rparr>)"
    by (simp add: processFile_def skip_def)
  have b: "includeAll opts \<longrightarrow>
      processEntries L opts directory dir ((name, File (f\<lparr>is_binary := b\<rparr>)) # es) st =
      processEntries L opts directory dir ((name, File f) # es) st"
    by (auto simp: processFile_def readAndAppend_def split: option.splits)
  have c: "processEntries L opts directory dir ((name, File f) # es) st =
      processEntries L opts directory dir es
        (st\<lparr>output_str := output_str st @ format_record L directory (path_join L dir name) sz c,
           processedFiles := processedFiles st + 1\<rparr>)"
    if h: "includeAll opts \<and> stat_size f = Some sz \<and> contents f = Some c \<and>
      length (output_str st) + length (format_record L directory (path_join L dir name) sz c)
        \<le> maxStringLength L"
  proof -
    have "classify opts f = Included sz c" using h by (simp add: classify_def)
    then show ?thesis using h by (simp only: processEntries_File processFile_fits)
  qed
  show ?thesis using a b c by blast
qed

theorem binary_filter_witness:
  "(\<not> includeAll default_options \<and> stat_size small_bin = Some 4 \<and>
    \<not> of_nat 4 > thresholdBytes default_options \<and> is_binary small_bin = Some True) \<and>
   processEntries sample_lib default_options ''/repo'' ''/repo'' [(''a.png'', File small_bin)] initial_state =
     Inr \<lparr>output_str = [], processedFiles = 0, skippedFiles = 1\<rparr> \<and>
   (includeAll include_all_options \<and> stat_size small_bin = Some 4 \<and> contents small_bin = Some ''x'' \<and>
    length (output_str initial_state)
      + length (format_record sample_lib ''/repo'' (path_join sample_lib ''/repo'' ''a.png'') 4 ''x'')
      \<le> maxStringLength sample_lib) \<and>
   processEntries sample_lib include_all_options ''/repo'' ''/repo''
       [(''a.png'', File small_bin)] initial_state =
     Inr \<lparr>output_str = ''\<newline>================================================================================\<newline>File: a.png\<newline>Size: 4 B\<newline>================================================================================\<newline>\<newline>x\<newline>'',
          processedFiles = 1, skippedFiles = 0\<rparr> \<and>
   processEntries sample_lib include_all_options ''/repo'' ''/repo''
       [(''a.png'', File (small_bin\<lparr>is_binary := None\<rparr>))] initial_state =
     Inr \<lparr>output_str = ''\<newline>================================================================================\<newline>File: a.png\<newline>Size: 4 B\<newline>================================================================================\<newline>\<newline>x\<newline>'',
          processedFiles = 1, skippedFiles = 0\<rparr>"
proof -
  have h1: "\<not> includeAll default_options \<and> stat_size small_bin = Some 4 \<and>
    \<not> of_nat 4 > thresholdBytes default_options \<and> is_binary small_bin = Some True"
    by (simp add: default_options_def small_bin_def thresholdBytes_def)
  have h2: "includeAll include_all_options \<and> stat_size small_bin = Some 4 \<and>
    contents small_bin = Some ''x'' \<and>
    length (output_str initial_state)
      + length (format_record sample_lib ''/repo'' (path_join sample_lib ''/repo'' ''a.png'') 4 ''x'')
      \<le> maxStringLength sample_lib"
    by (simp add: small_bin_def include_all_options_def initial_state_def format_record_def
        sample_lib_def decimal_values)
  have r: "format_record sample_lib ''/repo'' (path_join sample_lib ''/repo'' ''a.png'') 4 ''x'' =
     ''\<newline>================================================================================\<newline>File: a.png\<newline>Size: 4 B\<newline>================================================================================\<newline>\<newline>x\<newline>''"
    by (simp add: format_record_def sample_lib_def decimal_values delimiter_literal)
  note t1 = binary_filter[of default_options small_bin 4 sample_lib "''/repo''" "''/repo''"
        "''a.png''" "[]" initial_state None "''x''"]
  note t2 = binary_filter[of include_all_options small_bin 4 sample_lib "''/repo''" "''/repo''"
        "''a.png''" "[]" initial_state None "''x''"]
  have c1: "processEntries sample_lib default_options ''/repo'' ''/repo''
      [(''a.png'', File small_bin)] initial_state =
     Inr \<lparr>output_str = [], processedFiles = 0, skippedFiles = 1\<rparr>"
    using h1 t1 by (simp add: initial_state_def)
  have "processEntries sample_lib include_all_options ''/repo'' ''/repo''
       [(''a.png'', File small_bin)] initial_state =
     processEntries sample_lib include_all_options ''/repo'' ''/repo'' []
       (initial_state\<lparr>output_str := output_str initial_state
            @ format_record sample_lib ''/repo'' (path_join sample_lib ''/repo'' ''a.png'') 4 ''x'',
          processedFiles := processedFiles initial_state + 1\<rparr>)"
    using h2 t2 by blast
  then have c2: "processEntries sample_lib include_all_options ''/repo'' ''/repo''
       [(''a.png'', File small_bin)] initial_state =
     Inr \<lparr>output_str = ''\<newline>================================================================================\<newline>File: a.png\<newline>Size: 4 B\<newline>================================================================================\<newline>\<newline>x\<newline>'',
          processedFiles = 1, skippedFiles = 0\<rparr>"
    by (simp add: r initial_state_def)
  have "processEntries sample_lib include_all_options ''/repo'' ''/repo''
       [(''a.png'', File (small_bin\<lparr>is_binary := None\<rparr>))] initial_state =
     processEntries sample_lib include_all_options ''/repo'' ''/repo''
       [(''a.png'', File small_bin)] initial_state"
    using h2 t2 by blast
  then have c3: "processEntries sample_lib include_all_options ''/repo'' ''/repo''
       [(''a.png'', File (small_bin\<lparr>is_binary := None\<rparr>))] initial_state =
     Inr \<lparr>output_str = ''\<newline>================================================================================\<newline>File: a.png\<newline>Size: 4 B\<newline>================================================================================\<newline>\<newline>x\<newline>'',
          processedFiles = 1, skippedFiles = 0\<rparr>"
    by (simp only: c2)
  show ?thesis using h1 h2 c1 c2 c3 by blast
qed

text \<open>
  C5. A directory named exactly \<open>node_modules\<close> or \<open>.git\<close>, at any depth and whatever
  \<open>includeAll\<close> says, is stepped over: the loop goes on with the state it had, no file
  below the directory is visited, and nothing below it, not even that it could be
  enumerated, has any effect on the run.
\<close>

theorem reserved_directories_skipped:
  "(name = ''node_modules'' \<or> name = ''.git'' \<longrightarrow>
      processEntries L opts directory dir ((name, Directory sub) # es) st =
      processEntries L opts directory dir es st \<and>
      visited_entries L dir ((name, Directory sub) # es) = visited_entries L dir es) \<and>
   processDirectory L opts directory dir (prune tree) st = processDirectory L opts directory dir tree st"
  by (auto simp: walk_prune reserved_def)

theorem reserved_directories_skipped_witness:
  "processEntries sample_lib (default_options\<lparr>includeAll := True\<rparr>) ''/repo'' ''/repo''
      [(''.git'', Directory (Some [(''config'', File (text_file 1 ''x''))]))] initial_state =
     Inr initial_state \<and>
   visited_entries sample_lib ''/repo''
      [(''.git'', Directory (Some [(''config'', File (text_file 1 ''x''))]))] = [] \<and>
   prune tree3 = Some [(''src'', Directory (Some
                   [(''node_modules'', Directory None), (''.git'', Directory None)]))] \<and>
   processDirectory sample_lib (default_options\<lparr>includeAll := True\<rparr>) ''/repo'' ''/repo'' tree3 initial_state =
     Inr initial_state"
  using reserved_directories_skipped[of "''.git''" sample_lib "default_options\<lparr>includeAll := True\<rparr>"
      "''/repo''" "''/repo''" "Some [(''config'', File (text_file 1 ''x''))]" "[]" initial_state tree3]
  by (simp add: tree3_def reserved_def)

text \<open>
  C6. A file whose size query or whose read fails is counted in \<open>skippedFiles\<close> and
  the loop goes on with the next entry. A directory that cannot be enumerated ends
  \<open>processDirectory\<close> in an error, and \<open>processFiles\<close> ends in an error exactly when the
  walk meets such a directory; an error carries no text, and in every other case a text
  is returned.
\<close>

theorem error_policy:
  "(stat_size f = None \<or> contents f = None \<longrightarrow>
      processEntries L opts directory dir ((name, File f) # es) st =
      processEntries L opts directory dir es (st\<lparr>skippedFiles := skippedFiles st + 1\<rparr>)) \<and>
   processDirectory L opts directory dir None st = Inl (ReaddirError dir) \<and>
   ((\<exists>e. processFiles L directory tree opts = Inl e) = unreadable tree) \<and>
   ((\<exists>content. processFiles L directory tree opts = Inr content) = (\<not> unreadable tree))"
proof -
  have a: "stat_size f = None \<or> contents f = None \<longrightarrow>
      processEntries L opts directory dir ((name, File f) # es) st =
      processEntries L opts directory dir es (st\<lparr>skippedFiles := skippedFiles st + 1\<rparr>)"
    by (auto simp: processFile_def readAndAppend_None skip_def split: option.splits bool.splits)
  have b: "\<exists>e. processFiles L directory tree opts = Inl e" if "unreadable tree"
    using walk_fails(1)[OF that, of L opts directory directory initial_state]
    by (auto simp: processFiles_def walk_def)
  have c: "\<exists>content. processFiles L directory tree opts = Inr content" if "\<not> unreadable tree"
    using walk_ok(1)[OF that, of L opts directory directory initial_state]
    by (simp add: processFiles_def walk_def)
  have d: "(\<exists>e. processFiles L directory tree opts = Inl e) = unreadable tree"
    using b c by (cases "unreadable tree") auto
  have e: "(\<exists>content. processFiles L directory tree opts = Inr content) = (\<not> unreadable tree)"
    using b c by (cases "unreadable tree") auto
  show ?thesis using a d e by simp
qed

theorem error_policy_witness:
  "contents broken_file = None \<and>
   processEntries sample_lib default_options ''/repo'' ''/repo''
      [(''gone.txt'', File broken_file), (''a.txt'', File (text_file 5 ''hello''))] initial_state =
     Inr \<lparr>output_str = format_record sample_lib ''/repo'' ''/repo/a.txt'' 5 ''hello'',
          processedFiles = 1, skippedFiles = 1\<rparr> \<and>
   unreadable tree4 \<and>
   processFiles sample_lib ''/repo'' tree4 default_options = Inl (ReaddirError ''/repo/sub/locked'')"
proof -
  have h: "contents broken_file = None" by (simp add: broken_file_def)
  have r: "processFiles sample_lib ''/repo'' tree4 default_options = Inl (ReaddirError ''/repo/sub/locked'')"
    by (simp add: processFiles_def walk_def tree4_def sample_lib_def reserved_def)
  show ?thesis
    using h r
      error_policy[of broken_file sample_lib default_options "''/repo''" "''/repo''" "''gone.txt''"
        "[(''a.txt'', File (text_file 5 ''hello''))]" initial_state tree4]
    by (simp add: run_defs text_file_def default_options_def format_record_def)
qed




text \<open>
  C8, as stated, fails: when the records do not fit into one string together, the
  order of enumeration decides which files are left out. Three files in one directory,
  reported in two orders, give one processed and two skipped files in one run, two
  processed and one skipped file in the other.
\<close>

theorem enumeration_order_changes_counters:
  "same_listing tree5 tree5' \<and>
   walk sample_lib ''/repo'' tree5 include_all_options =
     Inr \<lparr>output_str = format_record sample_lib ''/repo'' ''/repo/x'' 500000000
                          (replicate 500000000 (CHR ''a''))
                        @ header ''y'' ''40000000 B'' @ header ''z'' ''40000000 B'',
          processedFiles = 1, skippedFiles = 2\<rparr> \<and>
   walk sample_lib ''/repo'' tree5' include_all_options =
     Inr \<lparr>output_str = format_record sample_lib ''/repo'' ''/repo/y'' 40000000
                          (replicate 40000000 (CHR ''a''))
                        @ format_record sample_lib ''/repo'' ''/repo/z'' 40000000
                          (replicate 40000000 (CHR ''a''))
                        @ header ''x'' ''500000000 B'',
          processedFiles = 2, skippedFiles = 1\<rparr>"
  using same_tree5 walk_tree5 walk_tree5' by blast

text \<open>
  C8, amended. Two runs with the same options on the same tree, whose directories may
  report their entries in different orders: if one succeeds and the records of the files
  that pass the filters fit into one string together, the other succeeds as well, with
  the same \<open>processedFiles\<close>, the same \<open>skippedFiles\<close>, and texts that are
  concatenations of the same records, each the same number of times.
\<close>

theorem same_tree_same_result:
  assumes "same_listing tree tree'"
    and "walk L directory tree opts = Inr st"
    and "length (concat (records L opts directory (visited L directory tree))) \<le> maxStringLength L"
  shows "\<exists>st'. walk L directory tree' opts = Inr st' \<and>
           processedFiles st' = processedFiles st \<and>
           skippedFiles st' = skippedFiles st \<and>
           output_str st = concat (records L opts directory (visited L directory tree)) \<and>
           output_str st' = concat (records L opts directory (visited L directory tree')) \<and>
           mset (records L opts directory (visited L directory tree')) =
           mset (records L opts directory (visited L directory tree))"
proof -
  let ?fs = "visited L directory tree" and ?gs = "visited L directory tree'"
  have u: "\<not> unreadable tree" and st: "st = aggregate L opts directory ?fs initial_state"
    using assms(2) walk_Inr by (simp_all add: walk_def)
  have u': "\<not> unreadable tree'" and m: "mset ?gs = mset ?fs"
    using same_visited(1)[OF assms(1), of L] u by simp_all
  have w': "walk L directory tree' opts = Inr (aggregate L opts directory ?gs initial_state)"
    using walk_ok(1)[OF u'] by (simp add: walk_def)
  have mr: "mset (records L opts directory ?gs) = mset (records L opts directory ?fs)"
    by (rule mset_records[OF m])
  have lr: "length (records L opts directory ?gs) = length (records L opts directory ?fs)"
    by (rule mset_eq_length[OF mr])
  have lf: "length ?gs = length ?fs"
    by (rule mset_eq_length[OF m])
  have fit: "length (output_str initial_state) + length (concat (records L opts directory ?fs))
      \<le> maxStringLength L"
    using assms(3) by (simp add: initial_state_def)
  have fit': "length (output_str initial_state) + length (concat (records L opts directory ?gs))
      \<le> maxStringLength L"
    using fit length_concat_mset[OF mr] by simp
  note s1 = aggregate_fits[OF fit] and s2 = aggregate_fits[OF fit']
  have e1: "processedFiles st = length (records L opts directory ?fs)"
    "skippedFiles st = length ?fs - length (records L opts directory ?fs)"
    "output_str st = concat (records L opts directory ?fs)"
    unfolding st s1 by (simp_all add: initial_state_def)
  have e2: "processedFiles (aggregate L opts directory ?gs initial_state)
        = length (records L opts directory ?gs)"
    "skippedFiles (aggregate L opts directory ?gs initial_state)
        = length ?gs - length (records L opts directory ?gs)"
    "output_str (aggregate L opts directory ?gs initial_state)
        = concat (records L opts directory ?gs)"
    unfolding s2 by (simp_all add: initial_state_def)
  show ?thesis
    using w' mr e1 e2 lr lf by simp
qed

theorem same_tree_same_result_witness:
  "same_listing tree2 tree2' \<and>
   walk sample_lib ''/repo'' tree2 default_options =
     Inr \<lparr>output_str = ''\<newline>================================================================================\<newline>File: a.txt\<newline>Size: 5 B\<newline>================================================================================\<newline>\<newline>hello\<newline>\<newline>================================================================================\<newline>File: sub/b.txt\<newline>Size: 5 B\<newline>================================================================================\<newline>\<newline>world\<newline>'',
          processedFiles = 2, skippedFiles = 0\<rparr> \<and>
   length (concat (records sample_lib default_options ''/repo'' (visited sample_lib ''/repo'' tree2)))
     \<le> maxStringLength sample_lib \<and>
   walk sample_lib ''/repo'' tree2' default_options =
     Inr \<lparr>output_str = ''\<newline>================================================================================\<newline>File: sub/b.txt\<newline>Size: 5 B\<newline>================================================================================\<newline>\<newline>world\<newline>\<newline>================================================================================\<newline>File: a.txt\<newline>Size: 5 B\<newline>================================================================================\<newline>\<newline>hello\<newline>'',
          processedFiles = 2, skippedFiles = 0\<rparr> \<and>
   (\<exists>st'. walk sample_lib ''/repo'' tree2' default_options = Inr st' \<and>
          processedFiles st' = 2 \<and> skippedFiles st' = 0)"
proof -
  have r: "concat (records sample_lib default_options ''/repo'' (visited sample_lib ''/repo'' tree2)) =
     ''\<newline>================================================================================\<newline>File: a.txt\<newline>Size: 5 B\<newline>================================================================================\<newline>\<newline>hello\<newline>\<newline>================================================================================\<newline>File: sub/b.txt\<newline>Size: 5 B\<newline>================================================================================\<newline>\<newline>world\<newline>''"
    by (simp add: records_def record_of_def classify_def tree2_def reserved_def text_file_def
        default_options_def thresholdBytes_def format_record_def sample_lib_def decimal_values
        delimiter_literal)
  have l: "length (concat (records sample_lib default_options ''/repo'' (visited sample_lib ''/repo'' tree2)))
     \<le> maxStringLength sample_lib"
    unfolding r by (simp add: sample_lib_def)
  have w': "walk sample_lib ''/repo'' tree2' default_options =
     Inr \<lparr>output_str = ''\<newline>================================================================================\<newline>File: sub/b.txt\<newline>Size: 5 B\<newline>================================================================================\<newline>\<newline>world\<newline>\<newline>================================================================================\<newline>File: a.txt\<newline>Size: 5 B\<newline>================================================================================\<newline>\<newline>hello\<newline>'',
          processedFiles = 2, skippedFiles = 0\<rparr>"
    by (simp add: run_defs tree2'_def default_options_def text_file_def delimiter_literal)
  have e: "\<exists>st'. walk sample_lib ''/repo'' tree2' default_options = Inr st' \<and>
          processedFiles st' = 2 \<and> skippedFiles st' = 0"
    using same_tree_same_result[OF same_tree2 walk_tree2_literal l] by auto
  show ?thesis using same_tree2 walk_tree2_literal l w' e by blast
qed

text \<open>
  C9, as stated, fails in its last part: a regular file named \<open>.git\<close> of 536870800
  characters that survives the size and binary classification is not included, for want
  of room in the string.
\<close>

theorem reserved_name_file_fails_at_string_limit:
  "classify wide_options (long_text 536870800) =
     Included 536870800 (replicate 536870800 (CHR ''a'')) \<and>
   walk sample_lib ''/repo'' (Some [(''.git'', File (long_text 536870800))]) wide_options =
     Inr \<lparr>output_str = ''\<newline>================================================================================\<newline>File: .git\<newline>Size: 536870800 B\<newline>================================================================================\<newline>\<newline>'',
          processedFiles = 0, skippedFiles = 1\<rparr>"
  by (simp add: run_defs classify_def wide_options_def long_text_def delimiter_literal)

text \<open>
  C9, amended. A regular file named \<open>node_modules\<close> or \<open>.git\<close> is not stepped over: it
  is classified by size and content like any other file. When the classification is
  \<open>Included\<close> and the text so far and the record of the file do not exceed the
  string-length limit together, the record is appended and the file is counted in
  \<open>processedFiles\<close>; when the classification is one of the three skips, the file is
  counted in \<open>skippedFiles\<close>.
\<close>

theorem reserved_name_regular_file:
  "(name = ''node_modules'' \<or> name = ''.git'') \<longrightarrow>
     (classify opts f = Included sz c \<and>
      length (output_str st) + length (format_record L directory (path_join L dir name) sz c)
        \<le> maxStringLength L \<longrightarrow>
        processEntries L opts directory dir ((name, File f) # es) st =
        processEntries L opts directory dir es
          (st\<lparr>output_str := output_str st @ format_record L directory (path_join L dir name) sz c,
             processedFiles := processedFiles st + 1\<rparr>)) \<and>
     (classify opts f = SkippedTooLarge \<or> classify opts f = SkippedBinary \<or>
      classify opts f = SkippedReadError \<longrightarrow>
        processEntries L opts directory dir ((name, File f) # es) st =
        processEntries L opts directory dir es (st\<lparr>skippedFiles := skippedFiles st + 1\<rparr>))"
proof -
  have a: "processEntries L opts directory dir ((name, File f) # es) st =
        processEntries L opts directory dir es
          (st\<lparr>output_str := output_str st @ format_record L directory (path_join L dir name) sz c,
             processedFiles := processedFiles st + 1\<rparr>)"
    if "classify opts f = Included sz c \<and>
      length (output_str st) + length (format_record L directory (path_join L dir name) sz c)
        \<le> maxStringLength L"
    using that by (simp only: processEntries_File processFile_fits)
  have b: "processEntries L opts directory dir ((name, File f) # es) st =
        processEntries L opts directory dir es (st\<lparr>skippedFiles := skippedFiles st + 1\<rparr>)"
    if "classify opts f = SkippedTooLarge \<or> classify opts f = SkippedBinary \<or>
      classify opts f = SkippedReadError"
  proof -
    have "processFile L opts directory (path_join L dir name) f st = skip st"
      using that by (intro processFile_not_Included) auto
    then show ?thesis by (simp add: skip_def)
  qed
  show ?thesis using a b by blast
qed

theorem reserved_name_regular_file_witness:
  "(''.git'' = ''node_modules'' \<or> ''.git'' = ''.git'') \<and>
   (classify default_options (text_file 5 ''hello'') = Included 5 ''hello'' \<and>
    length (output_str initial_state)
      + length (format_record sample_lib ''/repo'' (path_join sample_lib ''/repo/sub'' ''.git'') 5 ''hello'')
      \<le> maxStringLength sample_lib) \<and>
   processEntries sample_lib default_options ''/repo'' ''/repo/sub''
       [(''.git'', File (text_file 5 ''hello''))] initial_state =
     Inr \<lparr>output_str = ''\<newline>================================================================================\<newline>File: sub/.git\<newline>Size: 5 B\<newline>================================================================================\<newline>\<newline>hello\<newline>'',
          processedFiles = 1, skippedFiles = 0\<rparr> \<and>
   classify default_options big_bin = SkippedTooLarge \<and>
   processEntries sample_lib default_options ''/repo'' ''/repo/sub''
       [(''.git'', File big_bin)] initial_state =
     Inr \<lparr>output_str = [], processedFiles = 0, skippedFiles = 1\<rparr>"
proof -
  have h: "classify default_options (text_file 5 ''hello'') = Included 5 ''hello'' \<and>
    length (output_str initial_state)
      + length (format_record sample_lib ''/repo'' (path_join sample_lib ''/repo/sub'' ''.git'') 5 ''hello'')
      \<le> maxStringLength sample_lib"
    by (simp add: classify_def default_options_def text_file_def thresholdBytes_def initial_state_def
        format_record_def sample_lib_def decimal_values)
  have k: "classify default_options big_bin = SkippedTooLarge"
    by (simp add: classify_def default_options_def big_bin_def thresholdBytes_def)
  have r: "format_record sample_lib ''/repo'' (path_join sample_lib ''/repo/sub'' ''.git'') 5 ''hello'' =
     ''\<newline>================================================================================\<newline>File: sub/.git\<newline>Size: 5 B\<newline>================================================================================\<newline>\<newline>hello\<newline>''"
    by (simp add: format_record_def sample_lib_def decimal_values delimiter_literal)
  have "processEntries sample_lib default_options ''/repo'' ''/repo/sub''
       [(''.git'', File (text_file 5 ''hello''))] initial_state =
     processEntries sample_lib default_options ''/repo'' ''/repo/sub'' []
       (initial_state\<lparr>output_str := output_str initial_state
            @ format_record sample_lib ''/repo'' (path_join sample_lib ''/repo/sub'' ''.git'') 5 ''hello'',
          processedFiles := processedFiles initial_state + 1\<rparr>)"
    using h reserved_name_regular_file[of "''.git''" default_options "text_file 5 ''hello''" 5 "''hello''"
        initial_state sample_lib "''/repo''" "''/repo/sub''" "[]"]
    by blast
  then have c1: "processEntries sample_lib default_options ''/repo'' ''/repo/sub''
       [(''.git'', File (text_file 5 ''hello''))] initial_state =
     Inr \<lparr>output_str = ''\<newline>================================================================================\<newline>File: sub/.git\<newline>Size: 5 B\<newline>================================================================================\<newline>\<newline>hello\<newline>'',
          processedFiles = 1, skippedFiles = 0\<rparr>"
    by (simp add: r initial_state_def)
  have "processEntries sample_lib default_options ''/repo'' ''/repo/sub''
       [(''.git'', File big_bin)] initial_state =
     processEntries sample_lib default_options ''/repo'' ''/repo/sub'' []
       (initial_state\<lparr>skippedFiles := skippedFiles initial_state + 1\<rparr>)"
    using k reserved_name_regular_file[of "''.git''" default_options big_bin 5 "''hello''"
        initial_state sample_lib "''/repo''" "''/repo/sub''" "[]"]
    by blast
  then have c2: "processEntries sample_lib default_options ''/repo'' ''/repo/sub''
       [(''.git'', File big_bin)] initial_state =
     Inr \<lparr>output_str = [], processedFiles = 0, skippedFiles = 1\<rparr>"
    by (simp add: initial_state_def)
  show ?thesis using h k c1 c2 by blast
qed

text \<open>
  C10. When the binary detector itself fails on a file that passed the size check,
  with \<open>includeAll\<close> off, the file is skipped: \<open>skippedFiles\<close> goes up by one, nothing
  is appended, the loop goes on with the next entry, and the run does not end in an
  error.
\<close>

theorem detector_error_skipped:
  "\<not> includeAll opts \<and> stat_size f = Some sz \<and> \<not> of_nat sz > thresholdBytes opts \<and>
   is_binary f = None \<longrightarrow>
     processEntries L opts directory dir ((name, File f) # es) st =
     processEntries L opts directory dir es (st\<lparr>skippedFiles := skippedFiles st + 1\<rparr>) \<and>
     walk L directory (Some [(name, File f)]) opts =
       Inr \<lparr>output_str = [], processedFiles = 0, skippedFiles = 1\<rparr>"
  by (simp add: processFile_def skip_def walk_def initial_state_def)

theorem detector_error_skipped_witness:
  "(\<not> includeAll default_options \<and> stat_size unsniffable = Some 5 \<and>
    \<not> of_nat 5 > thresholdBytes default_options \<and> is_binary unsniffable = None) \<and>
   processEntries sample_lib default_options ''/repo'' ''/repo''
       [(''a.txt'', File unsniffable), (''b.txt'', File (text_file 5 ''world''))] initial_state =
     Inr \<lparr>output_str = format_record sample_lib ''/repo'' ''/repo/b.txt'' 5 ''world'',
          processedFiles = 1, skippedFiles = 1\<rparr> \<and>
   walk sample_lib ''/repo'' (Some [(''a.txt'', File unsniffable)]) default_options =
     Inr \<lparr>output_str = [], processedFiles = 0, skippedFiles = 1\<rparr>"
proof -
  have h: "\<not> includeAll default_options \<and> stat_size unsniffable = Some 5 \<and>
    \<not> of_nat 5 > thresholdBytes default_options \<and> is_binary unsniffable = None"
    by (simp add: default_options_def unsniffable_def thresholdBytes_def)
  show ?thesis
    using h detector_error_skipped[of default_options unsniffable 5 sample_lib "''/repo''" "''/repo''"
        "''a.txt''" "[(''b.txt'', File (text_file 5 ''world''))]" initial_state]
    by (simp add: run_defs text_file_def default_options_def format_record_def)
qed

end
